theory Spec2Isabelle
  imports Main "HOL-Library.Sublist"
begin

section \<open>Time values of the Python runtime\<close>

text \<open>
  \<^verbatim>\<open>time_to_merge.py\<close> computes with \<^verbatim>\<open>datetime.datetime\<close> and
  \<^verbatim>\<open>datetime.timedelta\<close>. Both have a resolution of one microsecond, so a
  point in time is the number of microseconds since 0001-01-01T00:00:00 UTC and a duration
  is a signed number of microseconds. All timestamps of a github3 pull request carry the
  UTC offset, so that subtracting two of them is the difference of these numbers; a
  timestamp without an offset, which Python refuses to subtract from one with an offset,
  does not occur.
\<close>

type_synonym datetime = int
type_synonym timedelta = int

datatype error = OverflowError | ZeroDivisionError

definition us_per_day :: int where
  "us_per_day = 86400000000"

text \<open>
  A \<^verbatim>\<open>datetime\<close> lies between the years 1 and 9999 (3652059 days); a
  \<^verbatim>\<open>timedelta\<close> has a day count of magnitude at most 999999999, and its
  constructor raises \<^verbatim>\<open>OverflowError\<close> otherwise.
\<close>

definition datetime_ok :: "datetime \<Rightarrow> bool" where
  "datetime_ok t \<longleftrightarrow> 0 \<le> t \<and> t < 3652059 * us_per_day"

definition timedelta_ok :: "int \<Rightarrow> bool" where
  "timedelta_ok us \<longleftrightarrow> - 999999999 \<le> us div us_per_day \<and> us div us_per_day \<le> 999999999"

definition new_timedelta :: "int \<Rightarrow> error + timedelta" where
  "new_timedelta us = (if timedelta_ok us then Inr us else Inl OverflowError)"

text \<open>
  \<^verbatim>\<open>datetime - datetime\<close>. The difference of two representable timestamps is
  always a representable duration (lemma \<open>datetime_sub_ok\<close> below), so the
  subtraction has no error branch.
\<close>

definition datetime_sub :: "datetime \<Rightarrow> datetime \<Rightarrow> timedelta" where
  "datetime_sub a b = a - b"

text \<open>\<^verbatim>\<open>timedelta + timedelta\<close>, as used by \<^verbatim>\<open>+=\<close>.\<close>

definition timedelta_add :: "timedelta \<Rightarrow> timedelta \<Rightarrow> error + timedelta" where
  "timedelta_add a b = new_timedelta (a + b)"

text \<open>
  \<^verbatim>\<open>timedelta / int\<close> divides the microseconds and rounds to the nearest
  microsecond, a tie going to the even one:
  \<^verbatim>\<open>
  def _divide_and_round(a, b):
      q, r = divmod(a, b)
      r *= 2
      greater_than_half = r > b if b > 0 else r < b
      if greater_than_half or r == b and q % 2 == 1:
          q += 1
      return q
  \<close>
\<close>

definition divide_and_round :: "int \<Rightarrow> int \<Rightarrow> int" where
  "divide_and_round a b =
     (let q = a div b; r = 2 * (a mod b);
          greater_than_half = (if b > 0 then r > b else r < b)
      in if greater_than_half \<or> (r = b \<and> q mod 2 = 1) then q + 1 else q)"

definition timedelta_truediv :: "timedelta \<Rightarrow> int \<Rightarrow> error + timedelta" where
  "timedelta_truediv a b =
     (if b = 0 then Inl ZeroDivisionError else new_timedelta (divide_and_round a b))"

text \<open>
  Truth values, as an \<^verbatim>\<open>if\<close> tests them: \<^verbatim>\<open>None\<close> is false, a
  \<^verbatim>\<open>datetime\<close> object is always true (the class defines neither
  \<^verbatim>\<open>__bool__\<close> nor \<^verbatim>\<open>__len__\<close>), and a \<^verbatim>\<open>timedelta\<close> is true
  unless it equals \<^verbatim>\<open>timedelta(0)\<close>.
\<close>

definition datetime_bool :: "datetime \<Rightarrow> bool" where
  "datetime_bool t = True"

definition timedelta_bool :: "timedelta \<Rightarrow> bool" where
  "timedelta_bool d \<longleftrightarrow> d \<noteq> 0"

section \<open>Pull requests and the metric\<close>

text \<open>The attributes of \<^verbatim>\<open>github3.pulls.PullRequest\<close> that the program reads.\<close>

record pull_request =
  number :: int
  created_at :: datetime
  updated_at :: datetime
  merged_at :: "datetime option"
  draft :: bool

text \<open>
  \<^verbatim>\<open>
  def measure_time_to_merge(pull_request, ready_for_review_at):
      merged_at = None
      if pull_request.merged_at is None:
          return None
      merged_at = pull_request.merged_at
      if ready_for_review_at:
          return merged_at - ready_for_review_at
      created_at = pull_request.created_at
      return merged_at - created_at
  \<close>
\<close>

definition measure_time_to_merge :: "pull_request \<Rightarrow> datetime option \<Rightarrow> timedelta option" where
  "measure_time_to_merge pr ready_for_review_at =
     (case merged_at pr of
        None \<Rightarrow> None
      | Some m \<Rightarrow>
          (case ready_for_review_at of
             Some r \<Rightarrow>
               (if datetime_bool r then Some (datetime_sub m r)
                else Some (datetime_sub m (created_at pr)))
           | None \<Rightarrow> Some (datetime_sub m (created_at pr))))"

text \<open>
  The \<^verbatim>\<open>return\<close> statement through which a call leaves
  \<open>measure_time_to_merge\<close>: line 37 (not merged), line 42 (the supplied timestamp)
  or line 45 (the fallback to \<open>created_at\<close>).
\<close>

datatype return_site = Return_37 | Return_42 | Return_45

definition measure_time_to_merge_site :: "pull_request \<Rightarrow> datetime option \<Rightarrow> return_site" where
  "measure_time_to_merge_site pr ready_for_review_at =
     (case merged_at pr of
        None \<Rightarrow> Return_37
      | Some m \<Rightarrow>
          (case ready_for_review_at of
             Some r \<Rightarrow> (if datetime_bool r then Return_42 else Return_45)
           | None \<Rightarrow> Return_45))"

section \<open>The aggregation loop of main\<close>

text \<open>
  The dictionary appended to \<^verbatim>\<open>prs_with_metrics\<close>, with its four keys
  \<^verbatim>\<open>'pr'\<close>, \<^verbatim>\<open>'ready_for_review_at'\<close>, \<^verbatim>\<open>'merged_at'\<close> and
  \<^verbatim>\<open>'time_to_merge'\<close>.
\<close>

record pr_metric =
  metric_pr :: int
  metric_ready_for_review_at :: datetime
  metric_merged_at :: "datetime option"
  metric_time_to_merge :: timedelta

text \<open>The three variables that the loop of \<^verbatim>\<open>main\<close> updates.\<close>

record loop_state =
  prs_with_metrics :: "pr_metric list"
  total_time_to_merge :: timedelta
  count :: int

text \<open>Lines 74 to 76: the empty list, \<^verbatim>\<open>timedelta(0)\<close> and 0.\<close>

definition initial_state :: loop_state where
  "initial_state = \<lparr>prs_with_metrics = [], total_time_to_merge = 0, count = 0\<rparr>"

text \<open>
  Line 79: \<^verbatim>\<open>ready_for_review_at = pr.created_at if not pr.draft else pr.updated_at\<close>.
\<close>

definition ready_for_review_at :: "pull_request \<Rightarrow> datetime" where
  "ready_for_review_at pr = (if \<not> draft pr then created_at pr else updated_at pr)"

text \<open>
  Lines 79 to 89, one pass of the loop body:
  \<^verbatim>\<open>
  ready_for_review_at = pr.created_at if not pr.draft else pr.updated_at
  time_to_merge = measure_time_to_merge(pr, ready_for_review_at)
  if time_to_merge:
      prs_with_metrics.append({'pr': pr.number,
          'ready_for_review_at': ready_for_review_at,
          'merged_at': pr.merged_at, 'time_to_merge': time_to_merge})
      total_time_to_merge += time_to_merge
      count += 1
  \<close>
  The test \<^verbatim>\<open>if time_to_merge:\<close> is a truth-value test: it fails for
  \<^verbatim>\<open>None\<close> and for \<^verbatim>\<open>timedelta(0)\<close>.
\<close>

definition loop_body :: "pull_request \<Rightarrow> loop_state \<Rightarrow> error + loop_state" where
  "loop_body pr s =
     (case measure_time_to_merge pr (Some (ready_for_review_at pr)) of
        None \<Rightarrow> Inr s
      | Some time_to_merge \<Rightarrow>
          (if timedelta_bool time_to_merge
           then (case timedelta_add (total_time_to_merge s) time_to_merge of
                   Inl e \<Rightarrow> Inl e
                 | Inr new_total \<Rightarrow>
                     Inr \<lparr>prs_with_metrics = prs_with_metrics s @
                            [\<lparr>metric_pr = number pr,
                              metric_ready_for_review_at = ready_for_review_at pr,
                              metric_merged_at = merged_at pr,
                              metric_time_to_merge = time_to_merge\<rparr>],
                          total_time_to_merge = new_total,
                          count = count s + 1\<rparr>)
           else Inr s))"

fun main_loop :: "pull_request list \<Rightarrow> loop_state \<Rightarrow> error + loop_state" where
  "main_loop [] s = Inr s"
| "main_loop (pr # pull_requests) s =
     (case loop_body pr s of
        Inl e \<Rightarrow> Inl e
      | Inr s' \<Rightarrow> main_loop pull_requests s')"

text \<open>
  Line 91:
  \<^verbatim>\<open>average_time_to_merge = total_time_to_merge / count if count > 0 else timedelta(0)\<close>.
\<close>

definition average_time_to_merge :: "loop_state \<Rightarrow> error + timedelta" where
  "average_time_to_merge s =
     (if count s > 0 then timedelta_truediv (total_time_to_merge s) (count s) else Inr 0)"

section \<open>The report\<close>

text \<open>
  An f-string is a sequence of literal text and of values that Python renders with
  \<^verbatim>\<open>str\<close>; the rendering itself is left symbolic.
\<close>

datatype fpart =
  Text string
| Str_int int
| Str_datetime "datetime option"
| Str_timedelta timedelta

type_synonym fstring = "fpart list"

definition nl :: string where
  "nl = [CHR 0x0A]"

text \<open>
  What a run leaves behind: the strings written to \<^verbatim>\<open>pr_metrics.md\<close>, one per
  call of \<^verbatim>\<open>file.write\<close> and in that order (the file is opened with mode
  \<^verbatim>\<open>"w"\<close>, so that it holds nothing else), and the lines printed.
\<close>

record run_output =
  pr_metrics_md :: "fstring list"
  stdout :: "string list"

definition report_header :: "fstring list" where
  "report_header =
     [[Text (''# PR Metrics'' @ nl @ nl)],
      [Text (''| PR | Ready for Review | Merged At | Total Time Taken |'' @ nl)],
      [Text (''| --- | --- | --- | --- |'' @ nl)]]"

definition report_row :: "pr_metric \<Rightarrow> fstring" where
  "report_row pr_metric =
     [Text ''| '', Str_int (metric_pr pr_metric),
      Text '' | '', Str_datetime (Some (metric_ready_for_review_at pr_metric)),
      Text '' | '', Str_datetime (metric_merged_at pr_metric),
      Text '' | '', Str_timedelta (metric_time_to_merge pr_metric),
      Text ('' |'' @ nl)]"

definition report_footer :: "timedelta \<Rightarrow> int \<Rightarrow> int \<Rightarrow> fstring list" where
  "report_footer average total_open_prs cnt =
     [[Text (nl @ ''**Average Time to Merge:** ''), Str_timedelta average, Text nl],
      [Text (nl @ ''**Total Open PRs:** ''), Str_int total_open_prs, Text nl],
      [Text (nl @ ''**Total Closed PRs:** ''), Str_int cnt, Text nl]]"

definition generate_report :: "pr_metric list \<Rightarrow> timedelta \<Rightarrow> int \<Rightarrow> int \<Rightarrow> run_output" where
  "generate_report metrics average total_open_prs cnt =
     \<lparr>pr_metrics_md =
        report_header @ map report_row metrics @ report_footer average total_open_prs cnt,
      stdout = [''Wrote PR metrics to pr_metrics.md'']\<rparr>"

text \<open>
  \<^verbatim>\<open>main\<close>, from the closed pull requests that \<^verbatim>\<open>fetch_pull_requests\<close>
  returns and the \<^verbatim>\<open>count\<close> of the iterator over the open ones; the two requests
  to the hosting service are outside the program.
\<close>

definition main :: "pull_request list \<Rightarrow> int \<Rightarrow> error + run_output" where
  "main pull_requests total_open_prs =
     (case main_loop pull_requests initial_state of
        Inl e \<Rightarrow> Inl e
      | Inr s \<Rightarrow>
          (case average_time_to_merge s of
             Inl e \<Rightarrow> Inl e
           | Inr average \<Rightarrow>
               Inr (generate_report (prs_with_metrics s) average total_open_prs (count s))))"

section \<open>The state around a call\<close>

text \<open>
  What a function of the module can reach beyond its own local variables: the
  \<^verbatim>\<open>PullRequest\<close> objects, which are passed by reference and whose attributes a
  callee could assign to, the files, and the standard output.
\<close>

type_synonym ref = nat

record world =
  objects :: "ref \<Rightarrow> pull_request"
  files :: "string \<Rightarrow> fstring list option"
  printed :: "string list"

text \<open>
  The local variables \<^verbatim>\<open>merged_at\<close> and \<^verbatim>\<open>created_at\<close> of
  \<^verbatim>\<open>measure_time_to_merge\<close>; a variable that is not bound yet holds \<open>None\<close>.
\<close>

record frame =
  local_merged_at :: "datetime option"
  local_created_at :: "datetime option"

text \<open>
  The body of \<^verbatim>\<open>measure_time_to_merge\<close>, statement by statement, on its frame
  and the world: line 35 assigns \<^verbatim>\<open>None\<close> to the local \<^verbatim>\<open>merged_at\<close>,
  line 36 reads the attribute \<^verbatim>\<open>merged_at\<close> of the object, line 39 assigns it to
  the local, line 41 tests the argument \<^verbatim>\<open>ready_for_review_at\<close> (here \<open>ready\<close>), line 44 assigns the attribute
  \<^verbatim>\<open>created_at\<close> to the local \<^verbatim>\<open>created_at\<close>. The result is the returned
  value, the frame at the \<^verbatim>\<open>return\<close> and the world at the \<^verbatim>\<open>return\<close>.
\<close>

definition measure_time_to_merge_body ::
    "ref \<Rightarrow> datetime option \<Rightarrow> frame \<times> world \<Rightarrow> timedelta option \<times> frame \<times> world" where
  "measure_time_to_merge_body pull_request ready st =
     (case st of (f, w) \<Rightarrow>
        (let f1 = f\<lparr>local_merged_at := None\<rparr>
         in case merged_at (objects w pull_request) of
              None \<Rightarrow> (None, f1, w)
            | Some m \<Rightarrow>
                (let f2 = f1\<lparr>local_merged_at := Some m\<rparr>
                 in case ready of
                      Some r \<Rightarrow>
                        (if datetime_bool r then (Some (datetime_sub m r), f2, w)
                         else (let c = created_at (objects w pull_request);
                                   f3 = f2\<lparr>local_created_at := Some c\<rparr>
                               in (Some (datetime_sub m c), f3, w)))
                    | None \<Rightarrow>
                        (let c = created_at (objects w pull_request);
                             f3 = f2\<lparr>local_created_at := Some c\<rparr>
                         in (Some (datetime_sub m c), f3, w)))))"

text \<open>
  A call: the body runs on a fresh frame, which is dropped at the \<^verbatim>\<open>return\<close>; the
  caller gets the value and the world.
\<close>

definition measure_time_to_merge_call ::
    "ref \<Rightarrow> datetime option \<Rightarrow> world \<Rightarrow> timedelta option \<times> world" where
  "measure_time_to_merge_call pull_request ready w =
     (case measure_time_to_merge_body pull_request ready
             (\<lparr>local_merged_at = None, local_created_at = None\<rparr>, w) of
        (v, f, w') \<Rightarrow> (v, w'))"

text \<open>
  \<^verbatim>\<open>generate_report\<close> on the world: it replaces the content of
  \<^verbatim>\<open>pr_metrics.md\<close> and prints one line.
\<close>

definition generate_report_call ::
    "pr_metric list \<Rightarrow> timedelta \<Rightarrow> int \<Rightarrow> int \<Rightarrow> world \<Rightarrow> world" where
  "generate_report_call metrics average total_open_prs cnt w =
     (let out = generate_report metrics average total_open_prs cnt
      in w\<lparr>files := (files w)(''pr_metrics.md'' := Some (pr_metrics_md out)),
            printed := printed w @ stdout out\<rparr>)"

section \<open>Notions used to state the properties\<close>

text \<open>
  The row that the loop body appends for a pull request, if it appends one: the outcome of
  lines 79 to 87 for one record, apart from the running sum and the counter.
\<close>

definition row_of :: "pull_request \<Rightarrow> pr_metric option" where
  "row_of pr =
     (case measure_time_to_merge pr (Some (ready_for_review_at pr)) of
        None \<Rightarrow> None
      | Some time_to_merge \<Rightarrow>
          (if timedelta_bool time_to_merge
           then Some \<lparr>metric_pr = number pr,
                      metric_ready_for_review_at = ready_for_review_at pr,
                      metric_merged_at = merged_at pr,
                      metric_time_to_merge = time_to_merge\<rparr>
           else None))"

text \<open>The merged records of a sequence: those whose \<open>merged_at\<close> is present.\<close>

definition merged_records :: "pull_request list \<Rightarrow> pull_request list" where
  "merged_records prs = filter (\<lambda>pr. merged_at pr \<noteq> None) prs"

text \<open>
  The average in the words of the specification: the sum of the durations of the merged
  records, each measured from its ready-for-review timestamp, divided by the number of
  merged records, and a zero duration when there is none.
\<close>

definition spec_average :: "pull_request list \<Rightarrow> timedelta" where
  "spec_average prs =
     (let durations = map (\<lambda>pr. datetime_sub (the (merged_at pr)) (ready_for_review_at pr))
                          (merged_records prs)
      in if merged_records prs = [] then 0
         else divide_and_round (sum_list durations) (int (length (merged_records prs))))"

text \<open>A pull request all of whose timestamps are representable.\<close>

definition pull_request_ok :: "pull_request \<Rightarrow> bool" where
  "pull_request_ok pr \<longleftrightarrow>
     datetime_ok (created_at pr) \<and> datetime_ok (updated_at pr) \<and>
     (case merged_at pr of None \<Rightarrow> True | Some m \<Rightarrow> datetime_ok m)"

section \<open>The metric calculator\<close>

lemma datetime_sub_ok:
  assumes "datetime_ok a" and "datetime_ok b"
  shows "timedelta_ok (datetime_sub a b)"
proof -
  have "- (3652059 * us_per_day) \<le> a - b" and "a - b \<le> 3652059 * us_per_day"
    using assms by (simp_all add: datetime_ok_def)
  then have "- 3652059 \<le> (a - b) div us_per_day" and "(a - b) div us_per_day \<le> 3652059"
    by (simp_all add: us_per_day_def)
  then show ?thesis
    by (simp add: timedelta_ok_def datetime_sub_def)
qed

text \<open>
  The function and the return site agree: what a call returns is determined by the
  \<^verbatim>\<open>return\<close> statement it leaves through.
\<close>

lemma measure_time_to_merge_by_site:
  "measure_time_to_merge pr r =
     (case measure_time_to_merge_site pr r of
        Return_37 \<Rightarrow> None
      | Return_42 \<Rightarrow> Some (the (merged_at pr) - the r)
      | Return_45 \<Rightarrow> Some (the (merged_at pr) - created_at pr))"
  by (simp add: measure_time_to_merge_def measure_time_to_merge_site_def datetime_sub_def
      split: option.splits)

text \<open>
  C1. For a pull request whose \<open>merged_at\<close> is present and a supplied
  \<open>ready_for_review_at\<close>, \<open>measure_time_to_merge\<close> returns exactly
  \<open>merged_at - ready_for_review_at\<close>, also when that difference is negative.
\<close>

theorem C1_ready_supplied:
  "merged_at pr = Some m \<Longrightarrow> measure_time_to_merge pr (Some r) = Some (m - r)"
  by (simp add: measure_time_to_merge_def datetime_bool_def datetime_sub_def)

text \<open>
  An instance with a negative difference: merged on 2024-01-03, ready for review on
  2024-01-05, which gives minus two days.
\<close>

theorem C1_ready_supplied_witness:
  "merged_at \<lparr>number = 7, created_at = 63839664000000000, updated_at = 63839750400000000,
      merged_at = Some 63839836800000000, draft = False\<rparr> = Some 63839836800000000 \<and>
   measure_time_to_merge
     \<lparr>number = 7, created_at = 63839664000000000, updated_at = 63839750400000000,
      merged_at = Some 63839836800000000, draft = False\<rparr>
     (Some 63840009600000000) = Some (- 172800000000)"
  using C1_ready_supplied
    [of "\<lparr>number = 7, created_at = 63839664000000000, updated_at = 63839750400000000,
          merged_at = Some 63839836800000000, draft = False\<rparr>"
        63839836800000000 63840009600000000]
  by simp

text \<open>
  C2. For a pull request whose \<open>merged_at\<close> is present and no supplied
  \<open>ready_for_review_at\<close> (\<open>None\<close>), \<open>measure_time_to_merge\<close> returns exactly
  \<open>merged_at - created_at\<close>.
\<close>

theorem C2_ready_absent:
  "merged_at pr = Some m \<Longrightarrow> measure_time_to_merge pr None = Some (m - created_at pr)"
  by (simp add: measure_time_to_merge_def datetime_sub_def)

theorem C2_ready_absent_witness:
  "merged_at \<lparr>number = 7, created_at = 63839664000000000, updated_at = 63839750400000000,
      merged_at = Some 63839836800000000, draft = True\<rparr> = Some 63839836800000000 \<and>
   measure_time_to_merge
     \<lparr>number = 7, created_at = 63839664000000000, updated_at = 63839750400000000,
      merged_at = Some 63839836800000000, draft = True\<rparr>
     None = Some 172800000000"
  using C2_ready_absent
    [of "\<lparr>number = 7, created_at = 63839664000000000, updated_at = 63839750400000000,
          merged_at = Some 63839836800000000, draft = True\<rparr>"
        63839836800000000]
  by simp

text \<open>
  C3. For a pull request whose \<open>merged_at\<close> is absent, \<open>measure_time_to_merge\<close>
  returns \<open>None\<close> whatever \<open>ready_for_review_at\<close> is. The outcome is an ordinary
  return value: the function has no error result.
\<close>

theorem C3_not_merged:
  "merged_at pr = None \<Longrightarrow> measure_time_to_merge pr r = None"
  by (simp add: measure_time_to_merge_def)

theorem C3_not_merged_witness:
  "merged_at \<lparr>number = 7, created_at = 63839664000000000, updated_at = 63839750400000000,
      merged_at = None, draft = False\<rparr> = None \<and>
   measure_time_to_merge
     \<lparr>number = 7, created_at = 63839664000000000, updated_at = 63839750400000000,
      merged_at = None, draft = False\<rparr>
     (Some 63839664000000000) = None"
  using C3_not_merged
    [of "\<lparr>number = 7, created_at = 63839664000000000, updated_at = 63839750400000000,
          merged_at = None, draft = False\<rparr>"
        "Some 63839664000000000"]
  by simp

subsection \<open>The calculator and the state around it\<close>

text \<open>
  The result of the function on records depends on \<open>merged_at\<close>, \<open>created_at\<close>
  and the argument only.
\<close>

lemma measure_time_to_merge_fields:
  "merged_at pr1 = merged_at pr2 \<Longrightarrow> created_at pr1 = created_at pr2 \<Longrightarrow>
   measure_time_to_merge pr1 r = measure_time_to_merge pr2 r"
  by (simp add: measure_time_to_merge_def split: option.splits)

text \<open>
  The body returns what the function on records returns for the object that the reference
  denotes, and it leaves the world as it found it.
\<close>

lemma measure_time_to_merge_body_world:
  "measure_time_to_merge_body p r (f, w) = (v, f', w') \<Longrightarrow>
     w' = w \<and> v = measure_time_to_merge (objects w p) r"
  by (auto simp: measure_time_to_merge_body_def measure_time_to_merge_def Let_def
      split: option.splits if_splits)

text \<open>
  The body does change state, namely its frame: after a call that found the pull request
  merged, the local \<^verbatim>\<open>merged_at\<close> holds the merge timestamp.
\<close>

lemma measure_time_to_merge_body_frame:
  "merged_at (objects w p) = Some m \<Longrightarrow>
     measure_time_to_merge_body p r (f, w) = (v, f', w') \<Longrightarrow> local_merged_at f' = Some m"
  by (auto simp: measure_time_to_merge_body_def Let_def split: option.splits if_splits)

text \<open>By contrast \<^verbatim>\<open>generate_report\<close> never leaves the world as it found it.\<close>

lemma generate_report_call_modifies:
  "generate_report_call metrics average total_open_prs cnt w \<noteq> w"
proof
  assume "generate_report_call metrics average total_open_prs cnt w = w"
  then have "printed (generate_report_call metrics average total_open_prs cnt w) = printed w"
    by simp
  then show False
    by (simp add: generate_report_call_def generate_report_def Let_def)
qed

text \<open>
  C10. \<open>measure_time_to_merge\<close> is deterministic and free of side effects. A call
  leaves the world outside the function as it was: no attribute of an object, no file and
  no output is changed. Its value is the function \<open>measure_time_to_merge\<close> of the
  record that the argument denotes, and two calls, in whatever worlds, whose records agree
  on \<open>merged_at\<close> and \<open>created_at\<close> and whose \<open>ready_for_review_at\<close> is the same
  return the same value.
\<close>

theorem C10_deterministic_no_side_effect:
  "snd (measure_time_to_merge_call p r w) = w \<and>
   fst (measure_time_to_merge_call p r w) = measure_time_to_merge (objects w p) r \<and>
   (merged_at (objects w1 p1) = merged_at (objects w2 p2) \<and>
    created_at (objects w1 p1) = created_at (objects w2 p2) \<longrightarrow>
      fst (measure_time_to_merge_call p1 r w1) = fst (measure_time_to_merge_call p2 r w2))"
proof -
  have call: "measure_time_to_merge_call q a u = (measure_time_to_merge (objects u q) a, u)"
    for q a u
  proof -
    obtain v f' u' where body: "measure_time_to_merge_body q a
        (\<lparr>local_merged_at = None, local_created_at = None\<rparr>, u) = (v, f', u')"
      by (metis prod_cases3)
    from measure_time_to_merge_body_world [OF body] body show ?thesis
      by (simp add: measure_time_to_merge_call_def)
  qed
  have "measure_time_to_merge (objects w1 p1) r = measure_time_to_merge (objects w2 p2) r"
    if "merged_at (objects w1 p1) = merged_at (objects w2 p2)"
      and "created_at (objects w1 p1) = created_at (objects w2 p2)"
    using that by (rule measure_time_to_merge_fields)
  then show ?thesis
    by (simp add: call)
qed

text \<open>
  Two calls in two worlds that differ in their files and their output, on two pull
  requests that differ in number, update and draft state but were both opened on
  2024-01-01 and merged on 2024-01-03: both return two days, and the world of the first
  call is returned as it was.
\<close>

theorem C10_deterministic_no_side_effect_witness:
  "measure_time_to_merge_call 0 None
     \<lparr>objects = (\<lambda>_. \<lparr>number = 7, created_at = 63839664000000000,
                       updated_at = 63839750400000000,
                       merged_at = Some 63839836800000000, draft = True\<rparr>),
      files = (\<lambda>_. None), printed = []\<rparr> =
   (Some 172800000000,
     \<lparr>objects = (\<lambda>_. \<lparr>number = 7, created_at = 63839664000000000,
                       updated_at = 63839750400000000,
                       merged_at = Some 63839836800000000, draft = True\<rparr>),
      files = (\<lambda>_. None), printed = []\<rparr>) \<and>
   fst (measure_time_to_merge_call 1 None
     \<lparr>objects = (\<lambda>_. \<lparr>number = 8, created_at = 63839664000000000,
                       updated_at = 63839836800000000,
                       merged_at = Some 63839836800000000, draft = False\<rparr>),
      files = (\<lambda>_. Some []), printed = [''Wrote PR metrics to pr_metrics.md'']\<rparr>) =
   Some 172800000000"
  using C10_deterministic_no_side_effect
    [of 0 None
        "\<lparr>objects = (\<lambda>_. \<lparr>number = 7, created_at = 63839664000000000,
                       updated_at = 63839750400000000,
                       merged_at = Some 63839836800000000, draft = True\<rparr>),
          files = (\<lambda>_. None), printed = []\<rparr>"
        "\<lparr>objects = (\<lambda>_. \<lparr>number = 7, created_at = 63839664000000000,
                       updated_at = 63839750400000000,
                       merged_at = Some 63839836800000000, draft = True\<rparr>),
          files = (\<lambda>_. None), printed = []\<rparr>"
        0
        "\<lparr>objects = (\<lambda>_. \<lparr>number = 8, created_at = 63839664000000000,
                       updated_at = 63839836800000000,
                       merged_at = Some 63839836800000000, draft = False\<rparr>),
          files = (\<lambda>_. Some []), printed = [''Wrote PR metrics to pr_metrics.md'']\<rparr>"
        1]
  by (auto simp: prod_eq_iff measure_time_to_merge_def datetime_sub_def)

section \<open>The loop\<close>

text \<open>The definitions that a run on concrete records unfolds.\<close>

lemmas run_defs =
  main_def initial_state_def loop_body_def measure_time_to_merge_def ready_for_review_at_def
  datetime_bool_def datetime_sub_def timedelta_bool_def timedelta_add_def new_timedelta_def
  timedelta_ok_def us_per_day_def average_time_to_merge_def timedelta_truediv_def
  divide_and_round_def

text \<open>The loop body in terms of the row of the record.\<close>

lemma loop_body_row_of:
  "loop_body pr s =
     (case row_of pr of
        None \<Rightarrow> Inr s
      | Some m \<Rightarrow>
          (case timedelta_add (total_time_to_merge s) (metric_time_to_merge m) of
             Inl e \<Rightarrow> Inl e
           | Inr new_total \<Rightarrow>
               Inr \<lparr>prs_with_metrics = prs_with_metrics s @ [m],
                    total_time_to_merge = new_total,
                    count = count s + 1\<rparr>))"
  by (simp add: loop_body_def row_of_def split: option.splits sum.splits)

lemma timedelta_add_Inr: "timedelta_add a b = Inr c \<Longrightarrow> c = a + b"
  by (simp add: timedelta_add_def new_timedelta_def split: if_splits)

text \<open>
  A loop that runs to its end has appended the rows of the records in the order of the
  records, counted them and added up their durations.
\<close>

lemma main_loop_Inr:
  "main_loop prs s = Inr s' \<Longrightarrow>
     prs_with_metrics s' = prs_with_metrics s @ List.map_filter row_of prs \<and>
     count s' = count s + int (length (List.map_filter row_of prs)) \<and>
     total_time_to_merge s' =
       total_time_to_merge s + sum_list (map metric_time_to_merge (List.map_filter row_of prs))"
proof (induction prs arbitrary: s)
  case Nil
  then show ?case by (simp add: List.map_filter_simps)
next
  case (Cons pr prs)
  show ?case
  proof (cases "row_of pr")
    case None
    with Cons.prems have "main_loop prs s = Inr s'"
      by (simp add: loop_body_row_of)
    from Cons.IH [OF this] None show ?thesis
      by (simp add: List.map_filter_simps)
  next
    case (Some m)
    with Cons.prems obtain t where
      t: "timedelta_add (total_time_to_merge s) (metric_time_to_merge m) = Inr t"
      and rest: "main_loop prs \<lparr>prs_with_metrics = prs_with_metrics s @ [m],
                    total_time_to_merge = t, count = count s + 1\<rparr> = Inr s'"
      by (auto simp: loop_body_row_of split: sum.splits)
    from timedelta_add_Inr [OF t] Cons.IH [OF rest] Some show ?thesis
      by (simp add: List.map_filter_simps)
  qed
qed

lemma main_loop_not_merged:
  "\<forall>pr\<in>set prs. merged_at pr = None \<Longrightarrow> main_loop prs s = Inr s"
  by (induction prs arbitrary: s) (simp_all add: loop_body_def measure_time_to_merge_def)

lemma row_of_number: "row_of pr = Some m \<Longrightarrow> metric_pr m = number pr"
  by (auto simp: row_of_def split: option.splits if_splits)

lemma row_of_duration:
  "row_of pr = Some m \<Longrightarrow>
     \<exists>x. metric_merged_at m = Some x \<and>
         metric_time_to_merge m = x - metric_ready_for_review_at m"
  by (auto simp: row_of_def measure_time_to_merge_def datetime_bool_def datetime_sub_def
      split: option.splits if_splits)

lemma map_filter_set: "m \<in> set (List.map_filter f xs) \<Longrightarrow> \<exists>x\<in>set xs. f x = Some m"
  by (auto simp: List.map_filter_def)

lemma subseq_rows: "subseq (map metric_pr (List.map_filter row_of prs)) (map number prs)"
proof (induction prs)
  case Nil
  show ?case by (simp add: List.map_filter_simps)
next
  case (Cons pr prs)
  then show ?case
    by (cases "row_of pr") (auto simp: List.map_filter_simps row_of_number)
qed

text \<open>
  C4. The timestamp that the loop passes to \<open>measure_time_to_merge\<close> is
  \<open>created_at\<close> for a record that is not a draft and \<open>updated_at\<close> for a draft,
  and a row that the loop body appends holds this timestamp and the duration measured
  from it. A draft with \<open>created_at = D0\<close>, \<open>updated_at = D1\<close> and
  \<open>merged_at = D2\<close> gives the timestamp \<open>D1\<close> and the duration \<open>D2 - D1\<close>; the
  same record when it is not a draft gives \<open>D0\<close> and \<open>D2 - D0\<close>.
\<close>

theorem C4_ready_for_review_policy:
  "ready_for_review_at pr = (if draft pr then updated_at pr else created_at pr) \<and>
   (loop_body pr s = Inr s' \<longrightarrow>
      s' = s \<or>
      (\<exists>m x. prs_with_metrics s' = prs_with_metrics s @ [m] \<and>
         metric_ready_for_review_at m = (if draft pr then updated_at pr else created_at pr) \<and>
         merged_at pr = Some x \<and>
         metric_time_to_merge m = x - (if draft pr then updated_at pr else created_at pr))) \<and>
   ready_for_review_at
     \<lparr>number = n, created_at = D0, updated_at = D1, merged_at = Some D2, draft = True\<rparr> = D1 \<and>
   measure_time_to_merge
     \<lparr>number = n, created_at = D0, updated_at = D1, merged_at = Some D2, draft = True\<rparr>
     (Some (ready_for_review_at
        \<lparr>number = n, created_at = D0, updated_at = D1, merged_at = Some D2, draft = True\<rparr>))
     = Some (D2 - D1) \<and>
   ready_for_review_at
     \<lparr>number = n, created_at = D0, updated_at = D1, merged_at = Some D2, draft = False\<rparr> = D0 \<and>
   measure_time_to_merge
     \<lparr>number = n, created_at = D0, updated_at = D1, merged_at = Some D2, draft = False\<rparr>
     (Some (ready_for_review_at
        \<lparr>number = n, created_at = D0, updated_at = D1, merged_at = Some D2, draft = False\<rparr>))
     = Some (D2 - D0)"
proof -
  have policy: "ready_for_review_at p = (if draft p then updated_at p else created_at p)"
    for p :: pull_request
    by (simp add: ready_for_review_at_def)
  have appended: "s' = s \<or>
      (\<exists>m x. prs_with_metrics s' = prs_with_metrics s @ [m] \<and>
         metric_ready_for_review_at m = (if draft pr then updated_at pr else created_at pr) \<and>
         merged_at pr = Some x \<and>
         metric_time_to_merge m = x - (if draft pr then updated_at pr else created_at pr))"
    if run: "loop_body pr s = Inr s'"
  proof (cases "row_of pr")
    case None
    with run show ?thesis by (simp add: loop_body_row_of)
  next
    case (Some m)
    with run have "prs_with_metrics s' = prs_with_metrics s @ [m]"
      by (auto simp: loop_body_row_of split: sum.splits)
    moreover from Some obtain x where "merged_at pr = Some x"
      and "metric_ready_for_review_at m = ready_for_review_at pr"
      and "metric_time_to_merge m = x - ready_for_review_at pr"
      by (auto simp: row_of_def measure_time_to_merge_def datetime_bool_def datetime_sub_def
          split: option.splits if_splits)
    ultimately show ?thesis
      by (simp add: policy)
  qed
  show ?thesis
    using appended
    by (simp add: policy measure_time_to_merge_def datetime_bool_def datetime_sub_def)
qed

text \<open>
  The loop body on a draft opened on 2024-01-01, updated on 2024-01-02 and merged on
  2024-01-05: the row holds the timestamp of the update and a duration of three days.
\<close>

theorem C4_ready_for_review_policy_witness:
  "loop_body
     \<lparr>number = 4, created_at = 63839664000000000, updated_at = 63839750400000000,
      merged_at = Some 63840009600000000, draft = True\<rparr> initial_state =
   Inr \<lparr>prs_with_metrics =
          [\<lparr>metric_pr = 4, metric_ready_for_review_at = 63839750400000000,
            metric_merged_at = Some 63840009600000000,
            metric_time_to_merge = 259200000000\<rparr>],
        total_time_to_merge = 259200000000, count = 1\<rparr> \<and>
   ready_for_review_at
     \<lparr>number = 4, created_at = 63839664000000000, updated_at = 63839750400000000,
      merged_at = Some 63840009600000000, draft = True\<rparr> = 63839750400000000 \<and>
   (259200000000 :: int) = 63840009600000000 - 63839750400000000"
proof -
  have run: "loop_body
     \<lparr>number = 4, created_at = 63839664000000000, updated_at = 63839750400000000,
      merged_at = Some 63840009600000000, draft = True\<rparr> initial_state =
   Inr \<lparr>prs_with_metrics =
          [\<lparr>metric_pr = 4, metric_ready_for_review_at = 63839750400000000,
            metric_merged_at = Some 63840009600000000,
            metric_time_to_merge = 259200000000\<rparr>],
        total_time_to_merge = 259200000000, count = 1\<rparr>"
    by (simp add: run_defs)
  from C4_ready_for_review_policy
    [of "\<lparr>number = 4, created_at = 63839664000000000, updated_at = 63839750400000000,
          merged_at = Some 63840009600000000, draft = True\<rparr>"
        initial_state
        "\<lparr>prs_with_metrics =
          [\<lparr>metric_pr = 4, metric_ready_for_review_at = 63839750400000000,
            metric_merged_at = Some 63840009600000000,
            metric_time_to_merge = 259200000000\<rparr>],
        total_time_to_merge = 259200000000, count = 1\<rparr>"]
    run
  show ?thesis
    by simp
qed

subsection \<open>When the run completes\<close>

text \<open>
  The only operation of the run that can fail is the addition to the running sum. A sum of
  at most 273 differences of representable timestamps is a representable duration, and so
  is its average; a run over at most 273 pull requests therefore completes.
\<close>

lemma timedelta_ok_bound:
  assumes "- (273 * (3652059 * us_per_day)) \<le> x" and "x \<le> 273 * (3652059 * us_per_day) + 1"
  shows "timedelta_ok x"
proof -
  have "(- (273 * (3652059 * us_per_day))) div us_per_day \<le> x div us_per_day"
    using assms(1) by (intro zdiv_mono1) (simp_all add: us_per_day_def)
  moreover have "x div us_per_day \<le> (273 * (3652059 * us_per_day) + 1) div us_per_day"
    using assms(2) by (intro zdiv_mono1) (simp_all add: us_per_day_def)
  ultimately show ?thesis
    by (simp add: timedelta_ok_def us_per_day_def)
qed

lemma div_pos_bounds:
  fixes a b c :: int
  assumes "1 \<le> b" and "- c \<le> a" and "a \<le> c"
  shows "- c \<le> a div b \<and> a div b \<le> c"
proof (cases "0 \<le> a")
  case True
  then have "0 \<le> a div b" using assms(1) by (simp add: pos_imp_zdiv_nonneg_iff)
  moreover have "a div b \<le> a div 1"
    using True assms(1) by (intro zdiv_mono2) simp_all
  ultimately show ?thesis using assms True by simp
next
  case False
  then have "a div b \<le> 0" using assms(1) by (simp add: div_nonpos_pos_le0)
  moreover have "a div 1 \<le> a div b"
    using False assms(1) by (intro zdiv_mono2_neg) simp_all
  ultimately show ?thesis using assms False by simp
qed

lemma divide_and_round_cases:
  "divide_and_round a b = a div b \<or> divide_and_round a b = a div b + 1"
  by (simp add: divide_and_round_def Let_def)

lemma row_of_span:
  assumes "pull_request_ok pr" and "row_of pr = Some m"
  shows "\<bar>metric_time_to_merge m\<bar> \<le> 3652059 * us_per_day"
proof -
  from assms(2) obtain x where x: "merged_at pr = Some x"
    and m: "metric_time_to_merge m = x - ready_for_review_at pr"
    by (auto simp: row_of_def measure_time_to_merge_def datetime_bool_def datetime_sub_def
        split: option.splits if_splits)
  from assms(1) x have "datetime_ok x" and "datetime_ok (ready_for_review_at pr)"
    by (simp_all add: pull_request_ok_def ready_for_review_at_def)
  then have "0 \<le> x" and "x < 3652059 * us_per_day"
    and "0 \<le> ready_for_review_at pr" and "ready_for_review_at pr < 3652059 * us_per_day"
    by (simp_all add: datetime_ok_def)
  with m show ?thesis
    by linarith
qed

lemma loop_body_returns:
  assumes "pull_request_ok pr"
    and "\<bar>total_time_to_merge s\<bar> \<le> k * (3652059 * us_per_day)"
    and "0 \<le> k" and "k < 273"
  shows "\<exists>s'. loop_body pr s = Inr s' \<and>
              \<bar>total_time_to_merge s'\<bar> \<le> (k + 1) * (3652059 * us_per_day)"
proof (cases "row_of pr")
  case None
  with assms(2) show ?thesis
    by (simp add: loop_body_row_of us_per_day_def algebra_simps)
next
  case (Some m)
  let ?t = "total_time_to_merge s + metric_time_to_merge m"
  from row_of_span [OF assms(1) Some] assms(2)
  have t: "\<bar>?t\<bar> \<le> (k + 1) * (3652059 * us_per_day)"
    by (simp add: algebra_simps)
  also have "\<dots> \<le> 273 * (3652059 * us_per_day)"
    using assms(4) by (simp add: us_per_day_def)
  finally have "timedelta_ok ?t"
    by (intro timedelta_ok_bound) simp_all
  with Some t show ?thesis
    by (simp add: loop_body_row_of timedelta_add_def new_timedelta_def)
qed

lemma main_loop_returns:
  assumes "\<forall>pr\<in>set prs. pull_request_ok pr"
    and "\<bar>total_time_to_merge s\<bar> \<le> k * (3652059 * us_per_day)"
    and "0 \<le> k" and "k + int (length prs) \<le> 273"
  shows "\<exists>s'. main_loop prs s = Inr s' \<and>
              \<bar>total_time_to_merge s'\<bar> \<le> 273 * (3652059 * us_per_day)"
  using assms
proof (induction prs arbitrary: s k)
  case Nil
  have "k * (3652059 * us_per_day) \<le> 273 * (3652059 * us_per_day)"
    using Nil.prems(4) by (simp add: us_per_day_def)
  with Nil.prems(2) show ?case by (simp add: us_per_day_def)
next
  case (Cons pr prs)
  from Cons.prems have "pull_request_ok pr" and "k < 273" by simp_all
  from loop_body_returns [OF this(1) Cons.prems(2,3) this(2)]
  obtain s1 where s1: "loop_body pr s = Inr s1"
    and b1: "\<bar>total_time_to_merge s1\<bar> \<le> (k + 1) * (3652059 * us_per_day)"
    by blast
  have "\<exists>s'. main_loop prs s1 = Inr s' \<and>
          \<bar>total_time_to_merge s'\<bar> \<le> 273 * (3652059 * us_per_day)"
    using Cons.prems by (intro Cons.IH [OF _ b1]) simp_all
  with s1 show ?case by simp
qed

lemma average_time_to_merge_returns:
  assumes "\<bar>total_time_to_merge s\<bar> \<le> 273 * (3652059 * us_per_day)"
  shows "\<exists>average. average_time_to_merge s = Inr average"
proof (cases "count s > 0")
  case False
  then show ?thesis by (simp add: average_time_to_merge_def)
next
  case True
  let ?q = "total_time_to_merge s div count s"
  from True assms
  have "- (273 * (3652059 * us_per_day)) \<le> ?q \<and> ?q \<le> 273 * (3652059 * us_per_day)"
    by (intro div_pos_bounds) simp_all
  with divide_and_round_cases [of "total_time_to_merge s" "count s"]
  have "timedelta_ok (divide_and_round (total_time_to_merge s) (count s))"
    by (intro timedelta_ok_bound) auto
  with True show ?thesis
    by (simp add: average_time_to_merge_def timedelta_truediv_def new_timedelta_def)
qed

lemma main_returns:
  assumes "\<forall>pr\<in>set prs. pull_request_ok pr" and "length prs \<le> 273"
  shows "\<exists>out. main prs n = Inr out"
proof -
  have "\<exists>s'. main_loop prs initial_state = Inr s' \<and>
          \<bar>total_time_to_merge s'\<bar> \<le> 273 * (3652059 * us_per_day)"
    using assms by (intro main_loop_returns [where k = 0]) (simp_all add: initial_state_def)
  then obtain s' where "main_loop prs initial_state = Inr s'"
    and "\<bar>total_time_to_merge s'\<bar> \<le> 273 * (3652059 * us_per_day)"
    by blast
  with average_time_to_merge_returns [OF this(2)] show ?thesis
    by (auto simp: main_def)
qed

subsection \<open>A run on concrete records\<close>

text \<open>
  Two pull requests opened on 2024-01-01 and merged two and four days later: the report
  has both rows and an average of three days.
\<close>

lemma average_of_two_and_four_days:
  "main
     [\<lparr>number = 1, created_at = 63839664000000000, updated_at = 63839836800000000,
       merged_at = Some 63839836800000000, draft = False\<rparr>,
      \<lparr>number = 2, created_at = 63839664000000000, updated_at = 63840009600000000,
       merged_at = Some 63840009600000000, draft = False\<rparr>] 0 =
   Inr (generate_report
     [\<lparr>metric_pr = 1, metric_ready_for_review_at = 63839664000000000,
       metric_merged_at = Some 63839836800000000, metric_time_to_merge = 2 * us_per_day\<rparr>,
      \<lparr>metric_pr = 2, metric_ready_for_review_at = 63839664000000000,
       metric_merged_at = Some 63840009600000000, metric_time_to_merge = 4 * us_per_day\<rparr>]
     (3 * us_per_day) 0 2)"
  by (simp add: run_defs)

section \<open>What the report contains\<close>

text \<open>
  C6. When no record of the sequence is merged, the loop leaves its state as it was, the
  average is the zero duration, and the run ends with a report instead of an error: the
  division is not reached.
\<close>

theorem C6_no_merged_record:
  "\<forall>pr\<in>set prs. merged_at pr = None \<Longrightarrow>
     main_loop prs initial_state = Inr initial_state \<and>
     average_time_to_merge initial_state = Inr 0 \<and>
     main prs n = Inr (generate_report [] 0 n 0)"
  by (simp add: main_def main_loop_not_merged average_time_to_merge_def initial_state_def)

theorem C6_no_merged_record_witness:
  "main
     [\<lparr>number = 1, created_at = 63839664000000000, updated_at = 63839664000000000,
       merged_at = None, draft = False\<rparr>,
      \<lparr>number = 2, created_at = 63839664000000000, updated_at = 63839836800000000,
       merged_at = None, draft = True\<rparr>] 3 =
   Inr (generate_report [] 0 3 0)"
  using C6_no_merged_record
    [of "[\<lparr>number = 1, created_at = 63839664000000000, updated_at = 63839664000000000,
            merged_at = None, draft = False\<rparr>,
          \<lparr>number = 2, created_at = 63839664000000000, updated_at = 63839836800000000,
            merged_at = None, draft = True\<rparr>]" 3]
  by simp

text \<open>
  C8. The rows of the report are in the order of the records of the input sequence: the
  file consists of the header, the rows of those records that have one, in the order of
  the sequence, and the footer. In particular the pull-request numbers of the rows are a
  subsequence of the numbers of the input.
\<close>

theorem C8_rows_in_input_order:
  "main prs n = Inr out \<Longrightarrow>
     (\<exists>average. pr_metrics_md out =
        report_header @ map report_row (List.map_filter row_of prs) @
        report_footer average n (int (length (List.map_filter row_of prs)))) \<and>
     subseq (map metric_pr (List.map_filter row_of prs)) (map number prs)"
  by (auto simp: main_def generate_report_def initial_state_def subseq_rows
      split: sum.splits dest!: main_loop_Inr)

text \<open>
  A run over four closed pull requests: the first merged at the moment it was opened, the
  second merged after two days, the third not merged, the fourth a draft updated on
  2024-01-02 and merged on 2024-01-05. The report has the rows of the second and the
  fourth, in that order.
\<close>

theorem C8_rows_in_input_order_witness:
  "main
     [\<lparr>number = 1, created_at = 63839664000000000, updated_at = 63839664000000000,
       merged_at = Some 63839664000000000, draft = False\<rparr>,
      \<lparr>number = 2, created_at = 63839664000000000, updated_at = 63839836800000000,
       merged_at = Some 63839836800000000, draft = False\<rparr>,
      \<lparr>number = 3, created_at = 63839664000000000, updated_at = 63839750400000000,
       merged_at = None, draft = False\<rparr>,
      \<lparr>number = 4, created_at = 63839664000000000, updated_at = 63839750400000000,
       merged_at = Some 63840009600000000, draft = True\<rparr>] 5 =
   Inr (generate_report
     [\<lparr>metric_pr = 2, metric_ready_for_review_at = 63839664000000000,
       metric_merged_at = Some 63839836800000000, metric_time_to_merge = 172800000000\<rparr>,
      \<lparr>metric_pr = 4, metric_ready_for_review_at = 63839750400000000,
       metric_merged_at = Some 63840009600000000, metric_time_to_merge = 259200000000\<rparr>]
     216000000000 5 2) \<and>
   subseq [2, 4] [1, 2, 3, 4 :: int]"
proof -
  have run: "main
     [\<lparr>number = 1, created_at = 63839664000000000, updated_at = 63839664000000000,
       merged_at = Some 63839664000000000, draft = False\<rparr>,
      \<lparr>number = 2, created_at = 63839664000000000, updated_at = 63839836800000000,
       merged_at = Some 63839836800000000, draft = False\<rparr>,
      \<lparr>number = 3, created_at = 63839664000000000, updated_at = 63839750400000000,
       merged_at = None, draft = False\<rparr>,
      \<lparr>number = 4, created_at = 63839664000000000, updated_at = 63839750400000000,
       merged_at = Some 63840009600000000, draft = True\<rparr>] 5 =
   Inr (generate_report
     [\<lparr>metric_pr = 2, metric_ready_for_review_at = 63839664000000000,
       metric_merged_at = Some 63839836800000000, metric_time_to_merge = 172800000000\<rparr>,
      \<lparr>metric_pr = 4, metric_ready_for_review_at = 63839750400000000,
       metric_merged_at = Some 63840009600000000, metric_time_to_merge = 259200000000\<rparr>]
     216000000000 5 2)"
    by (simp add: run_defs)
  from C8_rows_in_input_order [OF run] run show ?thesis
    by (simp add: row_of_def measure_time_to_merge_def ready_for_review_at_def
        datetime_bool_def datetime_sub_def timedelta_bool_def List.map_filter_simps)
qed

text \<open>
  C9. Every row that the loop has appended records a duration equal to its
  \<open>merged_at\<close> minus its own \<open>ready_for_review_at\<close>. The loop never reaches the
  fallback to \<open>created_at\<close> of \<open>measure_time_to_merge\<close> (line 45): the second
  argument of its call is a timestamp, not \<open>None\<close>.
\<close>

theorem C9_rows_measure_from_ready_for_review:
  "(\<forall>pr. measure_time_to_merge_site pr (Some (ready_for_review_at pr)) \<noteq> Return_45) \<and>
   (main_loop prs initial_state = Inr s \<longrightarrow>
     (\<forall>m\<in>set (prs_with_metrics s).
        \<exists>x. metric_merged_at m = Some x \<and>
            metric_time_to_merge m = x - metric_ready_for_review_at m))"
proof (intro conjI allI impI ballI)
  fix pr
  show "measure_time_to_merge_site pr (Some (ready_for_review_at pr)) \<noteq> Return_45"
    by (simp add: measure_time_to_merge_site_def datetime_bool_def split: option.splits)
next
  fix m
  assume run: "main_loop prs initial_state = Inr s" and m: "m \<in> set (prs_with_metrics s)"
  from main_loop_Inr [OF run] m have "m \<in> set (List.map_filter row_of prs)"
    by (simp add: initial_state_def)
  then obtain pr where "row_of pr = Some m"
    by (auto dest: map_filter_set)
  then show "\<exists>x. metric_merged_at m = Some x \<and>
      metric_time_to_merge m = x - metric_ready_for_review_at m"
    by (rule row_of_duration)
qed

text \<open>
  The loop over a draft that was updated on 2024-01-02 and merged on 2024-01-05: its row
  measures three days, from the update and not from the creation on 2024-01-01.
\<close>

theorem C9_rows_measure_from_ready_for_review_witness:
  "main_loop
     [\<lparr>number = 4, created_at = 63839664000000000, updated_at = 63839750400000000,
       merged_at = Some 63840009600000000, draft = True\<rparr>] initial_state =
   Inr \<lparr>prs_with_metrics =
          [\<lparr>metric_pr = 4, metric_ready_for_review_at = 63839750400000000,
            metric_merged_at = Some 63840009600000000,
            metric_time_to_merge = 259200000000\<rparr>],
        total_time_to_merge = 259200000000, count = 1\<rparr> \<and>
   (259200000000 :: int) = 63840009600000000 - 63839750400000000 \<and>
   measure_time_to_merge_site
     \<lparr>number = 4, created_at = 63839664000000000, updated_at = 63839750400000000,
       merged_at = Some 63840009600000000, draft = True\<rparr>
     (Some 63839750400000000) = Return_42"
proof -
  have run: "main_loop
     [\<lparr>number = 4, created_at = 63839664000000000, updated_at = 63839750400000000,
       merged_at = Some 63840009600000000, draft = True\<rparr>] initial_state =
   Inr \<lparr>prs_with_metrics =
          [\<lparr>metric_pr = 4, metric_ready_for_review_at = 63839750400000000,
            metric_merged_at = Some 63840009600000000,
            metric_time_to_merge = 259200000000\<rparr>],
        total_time_to_merge = 259200000000, count = 1\<rparr>"
    by (simp add: run_defs)
  from C9_rows_measure_from_ready_for_review
    [of "[\<lparr>number = 4, created_at = 63839664000000000, updated_at = 63839750400000000,
           merged_at = Some 63840009600000000, draft = True\<rparr>]"
        "\<lparr>prs_with_metrics =
          [\<lparr>metric_pr = 4, metric_ready_for_review_at = 63839750400000000,
            metric_merged_at = Some 63840009600000000,
            metric_time_to_merge = 259200000000\<rparr>],
        total_time_to_merge = 259200000000, count = 1\<rparr>"]
    run
  show ?thesis
    by (simp add: measure_time_to_merge_site_def datetime_bool_def)
qed

section \<open>Merged records of duration zero\<close>

text \<open>
  The test of line 81 is a truth-value test, and \<^verbatim>\<open>timedelta(0)\<close> is false. A
  record that was merged at its ready-for-review timestamp therefore gets no row, adds
  nothing to the counter and is left out of the average, like a record that was not
  merged; \<open>measure_time_to_merge\<close> itself tells the two apart with
  \<^verbatim>\<open>is None\<close> at line 36.
\<close>

lemma row_of_None_iff:
  "row_of pr = None \<longleftrightarrow> merged_at pr = None \<or> merged_at pr = Some (ready_for_review_at pr)"
  by (auto simp: row_of_def measure_time_to_merge_def datetime_bool_def datetime_sub_def
      timedelta_bool_def split: option.splits)

lemma row_of_time_to_merge:
  "row_of pr = Some m \<Longrightarrow>
     metric_time_to_merge m = datetime_sub (the (merged_at pr)) (ready_for_review_at pr)"
  by (auto simp: row_of_def measure_time_to_merge_def datetime_bool_def
      split: option.splits if_splits)

lemma rows_without_zero_duration:
  assumes "\<forall>pr\<in>set prs. merged_at pr \<noteq> Some (ready_for_review_at pr)"
  shows "map metric_time_to_merge (List.map_filter row_of prs) =
         map (\<lambda>pr. datetime_sub (the (merged_at pr)) (ready_for_review_at pr))
           (merged_records prs)"
  using assms
proof (induction prs)
  case Nil
  show ?case by (simp add: List.map_filter_simps merged_records_def)
next
  case (Cons pr prs)
  then have IH: "map metric_time_to_merge (List.map_filter row_of prs) =
         map (\<lambda>pr. datetime_sub (the (merged_at pr)) (ready_for_review_at pr))
           (merged_records prs)"
    by simp
  show ?case
  proof (cases "row_of pr")
    case None
    with Cons.prems have "merged_at pr = None"
      by (simp add: row_of_None_iff)
    with None IH show ?thesis
      by (simp add: List.map_filter_simps merged_records_def)
  next
    case (Some m)
    then have "merged_at pr \<noteq> None"
      using row_of_None_iff [of pr] by auto
    with Some IH row_of_time_to_merge [OF Some] show ?thesis
      by (simp add: List.map_filter_simps merged_records_def)
  qed
qed

lemma new_timedelta_Inr: "new_timedelta x = Inr y \<Longrightarrow> y = x"
  by (simp add: new_timedelta_def split: if_splits)

text \<open>What a run that completes has written.\<close>

lemma main_Inr:
  assumes "main prs n = Inr out"
  shows "out = generate_report (List.map_filter row_of prs)
           (if List.map_filter row_of prs = [] then 0
            else divide_and_round
                   (sum_list (map metric_time_to_merge (List.map_filter row_of prs)))
                   (int (length (List.map_filter row_of prs))))
           n (int (length (List.map_filter row_of prs)))"
proof -
  from assms obtain s average where run: "main_loop prs initial_state = Inr s"
    and avg: "average_time_to_merge s = Inr average"
    and out: "out = generate_report (prs_with_metrics s) average n (count s)"
    by (auto simp: main_def split: sum.splits)
  from main_loop_Inr [OF run]
  have rows: "prs_with_metrics s = List.map_filter row_of prs"
    and cnt: "count s = int (length (List.map_filter row_of prs))"
    and total: "total_time_to_merge s =
      sum_list (map metric_time_to_merge (List.map_filter row_of prs))"
    by (simp_all add: initial_state_def)
  from avg have "average =
      (if count s > 0 then divide_and_round (total_time_to_merge s) (count s) else 0)"
    by (auto simp: average_time_to_merge_def timedelta_truediv_def
        split: if_splits dest: new_timedelta_Inr)
  with rows cnt total out show ?thesis
    by simp
qed

text \<open>
  When no record of the sequence was merged at its ready-for-review timestamp, the rows
  are those of the merged records, the counter is their number and the average is the one
  of the specification.
\<close>

lemma main_without_zero_duration:
  assumes "main prs n = Inr out"
    and "\<forall>pr\<in>set prs. merged_at pr \<noteq> Some (ready_for_review_at pr)"
  shows "out = generate_report (List.map_filter row_of prs) (spec_average prs) n
           (int (length (merged_records prs)))"
proof -
  let ?rows = "List.map_filter row_of prs"
  from rows_without_zero_duration [OF assms(2)]
  have durations: "map metric_time_to_merge ?rows =
      map (\<lambda>pr. datetime_sub (the (merged_at pr)) (ready_for_review_at pr))
        (merged_records prs)" .
  from arg_cong [OF this, of length]
  have len: "length ?rows = length (merged_records prs)"
    by simp
  then have "?rows = [] \<longleftrightarrow> merged_records prs = []"
    by (metis length_0_conv)
  with durations len have "spec_average prs =
      (if ?rows = [] then 0
       else divide_and_round (sum_list (map metric_time_to_merge ?rows))
              (int (length ?rows)))"
    by (simp add: spec_average_def Let_def)
  with main_Inr [OF assms(1)] len show ?thesis
    by simp
qed

text \<open>
  C5. The property asked for: the average of the report is the sum of the durations of the
  merged records divided by the number of merged records. The program does not have it.
  The run below is over two merged records, of durations zero and two days: the report
  gives an average of two days, where the sum divided by the number of merged records is
  one day.
\<close>

theorem C5_zero_duration_record_left_out_of_average:
  "main
     [\<lparr>number = 1, created_at = 63839664000000000, updated_at = 63839664000000000,
       merged_at = Some 63839664000000000, draft = False\<rparr>,
      \<lparr>number = 2, created_at = 63839664000000000, updated_at = 63839836800000000,
       merged_at = Some 63839836800000000, draft = False\<rparr>] 9 =
   Inr (generate_report
     [\<lparr>metric_pr = 2, metric_ready_for_review_at = 63839664000000000,
       metric_merged_at = Some 63839836800000000, metric_time_to_merge = 172800000000\<rparr>]
     172800000000 9 1) \<and>
   spec_average
     [\<lparr>number = 1, created_at = 63839664000000000, updated_at = 63839664000000000,
       merged_at = Some 63839664000000000, draft = False\<rparr>,
      \<lparr>number = 2, created_at = 63839664000000000, updated_at = 63839836800000000,
       merged_at = Some 63839836800000000, draft = False\<rparr>] = 86400000000"
  by (simp add: run_defs spec_average_def merged_records_def)

text \<open>
  C7. The property asked for: the number of rows of the report, and the value written as
  Total Closed PRs, equal the number of merged records. The program does not have it. The
  run below is over one merged record, of duration zero, with nine open pull requests: the
  report has no row and a Total Closed PRs of 0.
\<close>

theorem C7_zero_duration_record_has_no_row:
  "main
     [\<lparr>number = 1, created_at = 63839664000000000, updated_at = 63839664000000000,
       merged_at = Some 63839664000000000, draft = False\<rparr>] 9 =
   Inr (generate_report [] 0 9 0) \<and>
   length (merged_records
     [\<lparr>number = 1, created_at = 63839664000000000, updated_at = 63839664000000000,
       merged_at = Some 63839664000000000, draft = False\<rparr>]) = 1"
  by (simp add: run_defs merged_records_def)

end
